theory Spec2Isabelle
  imports Main "HOL-Library.Word"
begin

section \<open>The extraction service of \<open>src/app.py\<close>\<close>

text \<open>
  The service is one Flask handler, \<open>handle_extraction\<close>, and four helpers. Everything
  the handler does beyond computing its response is a call to a collaborator outside the
  repository: the file system, PyPDF2, the Gemini client, the \<open>json\<close> and \<open>os.path\<close>
  modules. The record \<open>env\<close> fixes, for one request, what each of those calls answers;
  the Python functions become HOL functions of the \<open>env\<close> that return their Python
  result together with the list of collaborator calls and diagnostics they performed, in
  program order.

  Strings are byte strings (UTF-8); a Python \<open>None\<close> result is \<open>None\<close> of an option
  type, except where the value is a decoded JSON value, whose \<open>null\<close> is Python's
  \<open>None\<close> itself (\<open>PNone\<close>).
\<close>

subsection \<open>Data\<close>

type_synonym bytes = "8 word list"

text \<open>
  Exceptions (subclasses of \<open>Exception\<close>) by the class the handlers of the source
  discriminate on; every other class is \<open>OtherError\<close> with its text.
\<close>

datatype exn =
    FileNotFoundError
  | PdfReadError
  | JSONDecodeError
  | UnboundLocalError
  | OtherError string

text \<open>What \<open>json.loads\<close> returns: Python objects. A float is its IEEE-754 bit pattern.\<close>

datatype pyval =
    PNone
  | PBool bool
  | PInt int
  | PFloat "64 word"
  | PStr string
  | PList "pyval list"
  | PDict "(string \<times> pyval) list"

text \<open>The uploaded part \<open>request.files['file']\<close>: its \<open>filename\<close> and what \<open>read()\<close> returns.\<close>

record upload =
  filename :: string
  content :: bytes

text \<open>
  A Gemini response: \<open>candidates\<close>, each with its \<open>content.parts\<close> (the text of each
  part), and what the accessor \<open>response.text\<close> yields (it may raise).
\<close>

record candidate =
  parts :: "string list"

record response =
  candidates :: "candidate list"
  response_text :: "exn + string"

text \<open>
  The collaborators, as one request sees them. \<open>Inl e\<close> and \<open>Some e\<close> mean that the
  call raises \<open>e\<close>.
  \<^item> \<open>request_file\<close>: \<open>None\<close> when \<open>'file' not in request.files\<close>;
  \<^item> \<open>fs_read p\<close>: \<open>open(p, 'r', encoding='utf-8')\<close> followed by \<open>f.read()\<close>;
  \<^item> \<open>pdf_reader b\<close>: \<open>PyPDF2.PdfReader\<close> on the bytes and \<open>reader.pages\<close>; each page
    is what its \<open>extract_text()\<close> answers;
  \<^item> \<open>model_new\<close>: the constructor \<open>genai.GenerativeModel\<close> with the fixed settings;
  \<^item> \<open>generate_content\<close>: \<open>model.generate_content\<close>;
  \<^item> \<open>json_loads\<close>: \<open>json.loads\<close>;
  \<^item> \<open>splitext\<close>, \<open>path_join\<close>: \<open>os.path.splitext\<close>, \<open>os.path.join\<close> of the platform;
  \<^item> \<open>makedirs d\<close>: \<open>os.makedirs(d, exist_ok=True)\<close>;
  \<^item> \<open>open_w p\<close>: \<open>open(p, 'w', encoding='utf-8')\<close>;
  \<^item> \<open>json_dump p v\<close>: \<open>json.dump(v, f, indent=4, ensure_ascii=False)\<close> on the file
    opened at \<open>p\<close>, and leaving the \<open>with\<close> block: the exception raised, if any, and
    the text that reached the file.
\<close>

record env =
  request_file :: "upload option"
  fs_read :: "string \<Rightarrow> exn + string"
  pdf_reader :: "bytes \<Rightarrow> exn + (exn + string) list"
  model_new :: "exn option"
  generate_content :: "string \<Rightarrow> exn + response"
  json_loads :: "string \<Rightarrow> exn + pyval"
  splitext :: "string \<Rightarrow> string \<times> string"
  path_join :: "string \<Rightarrow> string \<Rightarrow> string"
  makedirs :: "string \<Rightarrow> exn option"
  open_w :: "string \<Rightarrow> exn option"
  json_dump :: "string \<Rightarrow> pyval \<Rightarrow> exn option \<times> string"

text \<open>
  The diagnostics the helpers print (error and warning lines, and the confirmation of
  \<open>save_output\<close>), one constructor for each; progress lines and the dumps of the raw
  response that follow some diagnostics are not recorded.
\<close>

datatype msg =
    FileNotFoundAt string
  | ErrorReadingFile string exn
  | NoTextExtracted
  | InvalidPdf
  | ErrorExtractingText exn
  | ErrorInitModel exn
  | NoCandidates
  | NoParts
  | InvalidJson exn
  | UnexpectedJsonError exn
  | ApiError exn
  | OutputSaved string
  | ErrorSavingOutput string exn

datatype event =
    ReadFile string
  | PdfOpen bytes
  | ModelNew string
  | Generate string
  | Makedirs string
  | OpenWrite string
  | JsonDump string pyval
  | Log msg

text \<open>
  What leaves \<open>handle_extraction\<close>: \<open>jsonify(...)\<close> with a status, or an exception that
  no handler of the source catches.
\<close>

datatype body = ErrorBody string | JsonBody pyval

datatype outcome = Response body nat | Raised exn

subsection \<open>Constants\<close>

definition ONTOLOGY_FILE :: string where
  "ONTOLOGY_FILE = ''D:/DowryProject/dowryONTO_updated.rdf''"

definition PROMPT_FILE :: string where
  "PROMPT_FILE = ''D:/DowryProject/code.txt''"

definition OUTPUT_DIR :: string where
  "OUTPUT_DIR = ''output''"

definition MODEL_NAME :: string where
  "MODEL_NAME = ''gemini-1.5-flash''"

subsection \<open>String operations\<close>

text \<open>
  \<open>str.lower\<close> on the ASCII letters. On other code points Python's \<open>lower\<close> never
  yields one of the characters \<open>.\<close>, \<open>p\<close>, \<open>d\<close>, \<open>f\<close>, so the test
  \<open>lower().endswith('.pdf')\<close> is the same.
\<close>

definition lower_char :: "char \<Rightarrow> char" where
  "lower_char c =
     (let n = (of_char c :: nat) in if 65 \<le> n \<and> n \<le> 90 then char_of (n + 32) else c)"

definition lower :: "string \<Rightarrow> string" where
  "lower s = map lower_char s"

definition endswith :: "string \<Rightarrow> string \<Rightarrow> bool" where
  "endswith s suffix =
     (length suffix \<le> length s \<and> drop (length s - length suffix) s = suffix)"

subsection \<open>\<open>save_output\<close>\<close>

text \<open>
  The \<open>except\<close> clause formats \<open>filepath\<close>, which is assigned after \<open>os.makedirs\<close>:
  when \<open>os.makedirs\<close> raises, the name is unbound and the clause itself raises
  \<open>UnboundLocalError\<close>, which leaves the function. The first component is the exception
  that leaves \<open>save_output\<close>, if any.
\<close>

definition save_output :: "env \<Rightarrow> string \<Rightarrow> pyval \<Rightarrow> string \<Rightarrow> exn option \<times> event list" where
  "save_output w fname data output_dir =
     (case makedirs w output_dir of
        Some e \<Rightarrow> (Some UnboundLocalError, [Makedirs output_dir])
      | None \<Rightarrow>
          (let filepath = path_join w output_dir fname in
           case open_w w filepath of
             Some e \<Rightarrow>
               (None, [Makedirs output_dir, OpenWrite filepath,
                       Log (ErrorSavingOutput filepath e)])
           | None \<Rightarrow>
               (case fst (json_dump w filepath data) of
                  Some e \<Rightarrow>
                    (None, [Makedirs output_dir, OpenWrite filepath, JsonDump filepath data,
                            Log (ErrorSavingOutput filepath e)])
                | None \<Rightarrow>
                    (None, [Makedirs output_dir, OpenWrite filepath, JsonDump filepath data,
                            Log (OutputSaved filepath)]))))"

subsection \<open>\<open>read_file\<close>\<close>

definition read_file :: "env \<Rightarrow> string \<Rightarrow> string option \<times> event list" where
  "read_file w filepath =
     (case fs_read w filepath of
        Inr s \<Rightarrow> (Some s, [ReadFile filepath])
      | Inl e \<Rightarrow>
          (if e = FileNotFoundError
           then (None, [ReadFile filepath, Log (FileNotFoundAt filepath)])
           else (None, [ReadFile filepath, Log (ErrorReadingFile filepath e)])))"

subsection \<open>\<open>extract_text_from_pdf\<close>\<close>

text \<open>The loop over the pages: \<open>text += page.extract_text()\<close>, leaving at the first raise.\<close>

fun extract_pages :: "(exn + string) list \<Rightarrow> string \<Rightarrow> exn + string" where
  "extract_pages [] text = Inr text"
| "extract_pages (page # pages) text =
     (case page of
        Inl e \<Rightarrow> Inl e
      | Inr t \<Rightarrow> extract_pages pages (text @ t))"

definition pdf_failure :: "bytes \<Rightarrow> exn \<Rightarrow> string option \<times> event list" where
  "pdf_failure stream e =
     (if e = PdfReadError
      then (None, [PdfOpen stream, Log InvalidPdf])
      else (None, [PdfOpen stream, Log (ErrorExtractingText e)]))"

definition extract_text_from_pdf :: "env \<Rightarrow> bytes \<Rightarrow> string option \<times> event list" where
  "extract_text_from_pdf w pdf_file_stream =
     (case pdf_reader w pdf_file_stream of
        Inl e \<Rightarrow> pdf_failure pdf_file_stream e
      | Inr pages \<Rightarrow>
          (case extract_pages pages [] of
             Inl e \<Rightarrow> pdf_failure pdf_file_stream e
           | Inr text \<Rightarrow>
               (Some text,
                if text = [] then [PdfOpen pdf_file_stream, Log NoTextExtracted]
                else [PdfOpen pdf_file_stream])))"

subsection \<open>\<open>extract_concepts_with_gemini\<close>\<close>

text \<open>The f-string of lines 85 to 97, with its line breaks and its indentation.\<close>

definition full_prompt :: "string \<Rightarrow> string \<Rightarrow> string \<Rightarrow> string" where
  "full_prompt prompt_template ontology_text document_text =
     prompt_template @
     ''\<newline>\<newline>    ONTOLOGY CONTEXT:\<newline>    ```xml\<newline>    '' @
     ontology_text @
     ''\<newline>    ```\<newline>\<newline>    DOCUMENT TO ANALYZE:\<newline>    ```text\<newline>    '' @
     document_text @
     ''\<newline>    ```\<newline>\<newline>    EXTRACTED JSON OUTPUT:''"

text \<open>
  The result is the decoded JSON value, or Python's \<open>None\<close> (\<open>PNone\<close>) on every
  failure path. Both branches of the test on \<open>prompt_feedback\<close> only print and lead to
  the same \<open>return None\<close>; a raise of \<open>response.text\<close> is caught by the outer handler.
\<close>

definition extract_concepts_with_gemini ::
    "env \<Rightarrow> string \<Rightarrow> string \<Rightarrow> string \<Rightarrow> pyval \<times> event list" where
  "extract_concepts_with_gemini w document_text ontology_text prompt_template =
     (let prompt = full_prompt prompt_template ontology_text document_text in
      case model_new w of
        Some e \<Rightarrow> (PNone, [ModelNew MODEL_NAME, Log (ErrorInitModel e)])
      | None \<Rightarrow>
          (case generate_content w prompt of
             Inl e \<Rightarrow> (PNone, [ModelNew MODEL_NAME, Generate prompt, Log (ApiError e)])
           | Inr resp \<Rightarrow>
               (case candidates resp of
                  [] \<Rightarrow> (PNone, [ModelNew MODEL_NAME, Generate prompt, Log NoCandidates])
                | c # cs \<Rightarrow>
                    if parts c = []
                    then (PNone, [ModelNew MODEL_NAME, Generate prompt, Log NoParts])
                    else
                      (case response_text resp of
                         Inl e \<Rightarrow>
                           (PNone, [ModelNew MODEL_NAME, Generate prompt, Log (ApiError e)])
                       | Inr json_string \<Rightarrow>
                           (case json_loads w json_string of
                              Inr extracted_data \<Rightarrow>
                                (extracted_data, [ModelNew MODEL_NAME, Generate prompt])
                            | Inl e \<Rightarrow>
                                if e = JSONDecodeError
                                then (PNone, [ModelNew MODEL_NAME, Generate prompt,
                                              Log (InvalidJson e)])
                                else (PNone, [ModelNew MODEL_NAME, Generate prompt,
                                              Log (UnexpectedJsonError e)]))))))"

subsection \<open>\<open>handle_extraction\<close>\<close>

definition handle_extraction :: "env \<Rightarrow> outcome \<times> event list" where
  "handle_extraction w =
     (case request_file w of
        None \<Rightarrow> (Response (ErrorBody ''No file part in the request'') 400, [])
      | Some file \<Rightarrow>
          if filename file = [] then
            (Response (ErrorBody ''No selected file'') 400, [])
          else if \<not> endswith (lower (filename file)) ''.pdf'' then
            (Response (ErrorBody ''Invalid file type. Please upload a PDF.'') 400, [])
          else
            (let (ontology_content, t1) = read_file w ONTOLOGY_FILE;
                 (prompt_template_content, t2) = read_file w PROMPT_FILE
             in case (ontology_content, prompt_template_content) of
                  (Some ontology, Some template) \<Rightarrow>
                    (let (pdf_text, t3) = extract_text_from_pdf w (content file)
                     in case pdf_text of
                          None \<Rightarrow>
                            (Response (ErrorBody
                               ''Failed to extract text from the PDF file. It might be invalid, corrupted, or image-based.'')
                               400, t1 @ t2 @ t3)
                        | Some doc \<Rightarrow>
                            (let (extracted_data, t4) =
                                   extract_concepts_with_gemini w doc ontology template
                             in if extracted_data \<noteq> PNone then
                                  (let (raised, t5) =
                                         save_output w
                                           (fst (splitext w (filename file)) @ ''_extraction.json'')
                                           extracted_data OUTPUT_DIR
                                   in case raised of
                                        Some e \<Rightarrow> (Raised e, t1 @ t2 @ t3 @ t4 @ t5)
                                      | None \<Rightarrow>
                                          (Response (JsonBody extracted_data) 200,
                                           t1 @ t2 @ t3 @ t4 @ t5))
                                else
                                  (Response (ErrorBody
                                     ''Failed to extract information using the AI model.'')
                                     500, t1 @ t2 @ t3 @ t4)))
                | _ \<Rightarrow>
                    (Response (ErrorBody
                       ''Server configuration error reading ontology or prompt.'')
                       500, t1 @ t2)))"

subsection \<open>Reading a trace\<close>

text \<open>
  The prompts sent to the model, the byte streams handed to PyPDF2, the configuration
  reads, and the writes attempted.
\<close>

fun llm_prompts :: "event list \<Rightarrow> string list" where
  "llm_prompts [] = []"
| "llm_prompts (Generate p # es) = p # llm_prompts es"
| "llm_prompts (e # es) = llm_prompts es"

fun pdf_opens :: "event list \<Rightarrow> bytes list" where
  "pdf_opens [] = []"
| "pdf_opens (PdfOpen b # es) = b # pdf_opens es"
| "pdf_opens (e # es) = pdf_opens es"

fun config_reads :: "event list \<Rightarrow> string list" where
  "config_reads [] = []"
| "config_reads (ReadFile p # es) = p # config_reads es"
| "config_reads (e # es) = config_reads es"

fun is_write :: "event \<Rightarrow> bool" where
  "is_write (Makedirs d) = True"
| "is_write (OpenWrite p) = True"
| "is_write (JsonDump p v) = True"
| "is_write e = False"

definition output_writes :: "event list \<Rightarrow> event list" where
  "output_writes es = filter is_write es"

text \<open>
  What a file holds. A file that \<open>json.dump\<close> wrote to the end holds the document of
  the value it was given; its text is that value up to formatting, and reading it with
  \<open>json.loads\<close> gives the value back: this is the contract of the \<open>json\<close> module, which is
  not code of this repository. Any other file holds a text: the empty text after
  \<open>open(p, 'w')\<close>, or what reached the file when the write was cut short.
\<close>

datatype stored = Document pyval | Fragment string





subsection \<open>The request validator\<close>

text \<open>
  The three responses with which \<open>handle_extraction\<close> turns a request down before it
  reads anything (lines 158 to 170), and the path \<open>handle_extraction\<close> hands to
  \<open>save_output\<close> for an upload named \<open>name\<close>.
\<close>

definition validator_rejection :: "outcome \<Rightarrow> bool" where
  "validator_rejection r =
     (r = Response (ErrorBody ''No file part in the request'') 400 \<or>
      r = Response (ErrorBody ''No selected file'') 400 \<or>
      r = Response (ErrorBody ''Invalid file type. Please upload a PDF.'') 400)"

definition output_path :: "env \<Rightarrow> string \<Rightarrow> string" where
  "output_path w name = path_join w OUTPUT_DIR (fst (splitext w name) @ ''_extraction.json'')"

text \<open>
  The extension of a file name, as the specification uses the word: the part from the
  last dot on, empty when the name has no dot.
\<close>

definition split_last_dot :: "string \<Rightarrow> string \<times> string" where
  "split_last_dot s =
     (if CHR ''.'' \<in> set s
      then (rev (tl (dropWhile (\<lambda>c. c \<noteq> CHR ''.'') (rev s))),
            CHR ''.'' # rev (takeWhile (\<lambda>c. c \<noteq> CHR ''.'') (rev s)))
      else (s, []))"

definition extension_of :: "string \<Rightarrow> string" where
  "extension_of s = snd (split_last_dot s)"

subsection \<open>Well-formed PDFs\<close>

text \<open>
  A byte stream is a well-formed PDF when PyPDF2 opens it and the text of every page can
  be extracted.
\<close>

definition well_formed_pdf :: "env \<Rightarrow> bytes \<Rightarrow> bool" where
  "well_formed_pdf w b =
     (case pdf_reader w b of
        Inl e \<Rightarrow> False
      | Inr pages \<Rightarrow> list_all (\<lambda>page. \<not> isl page) pages)"

subsection \<open>The composed prompt, as the specification words it\<close>

text \<open>
  A labelled fenced block: the label line, the opening fence with its language tag, the
  body, the closing fence, each line indented as the service prints it. The composed
  prompt is the template, the ontology as a labelled \<open>xml\<close> block, the document text as
  a labelled \<open>text\<close> block and the trailing marker, separated by blank lines.
\<close>

definition fenced_block :: "string \<Rightarrow> string \<Rightarrow> string \<Rightarrow> string" where
  "fenced_block label lang body =
     ''    '' @ label @ '':\<newline>    ```'' @ lang @ ''\<newline>    '' @ body @ ''\<newline>    ```''"

definition composed_prompt :: "string \<Rightarrow> string \<Rightarrow> string \<Rightarrow> string" where
  "composed_prompt template ontology doc =
     template @ ''\<newline>\<newline>'' @
     fenced_block ''ONTOLOGY CONTEXT'' ''xml'' ontology @ ''\<newline>\<newline>'' @
     fenced_block ''DOCUMENT TO ANALYZE'' ''text'' doc @ ''\<newline>\<newline>'' @
     ''    EXTRACTED JSON OUTPUT:''"

subsection \<open>A sample environment\<close>

text \<open>
  Test doubles for the collaborators: both configuration files present, a two-page PDF
  uploaded as \<open>report.PDF\<close>, a model that answers \<open>{}\<close>, a decoder that knows a few
  JSON texts, and a file system that accepts every write.
\<close>

definition sample_loads :: "string \<Rightarrow> exn + pyval" where
  "sample_loads s =
     (if s = ''null'' then Inr PNone
      else if s = ''false'' then Inr (PBool False)
      else if s = ''0'' then Inr (PInt 0)
      else if s = ''[]'' then Inr (PList [])
      else if s = ''{}'' then Inr (PDict [])
      else Inl JSONDecodeError)"

definition sample_dumps :: "pyval \<Rightarrow> string" where
  "sample_dumps v =
     (if v = PNone then ''null''
      else if v = PBool False then ''false''
      else if v = PInt 0 then ''0''
      else if v = PList [] then ''[]''
      else if v = PDict [] then ''{}''
      else ''?'')"

definition sample_env :: env where
  "sample_env =
     \<lparr> request_file = Some \<lparr> filename = ''report.PDF'', content = [0x25, 0x50, 0x44, 0x46] \<rparr>,
       fs_read = (\<lambda>p. if p = ONTOLOGY_FILE then Inr ''<rdf/>''
                       else if p = PROMPT_FILE then Inr ''Extract.''
                       else Inl FileNotFoundError),
       pdf_reader = (\<lambda>b. Inr [Inr ''one '', Inr ''two'']),
       model_new = None,
       generate_content = (\<lambda>p. Inr \<lparr> candidates = [\<lparr> parts = [''{}''] \<rparr>],
                                       response_text = Inr ''{}'' \<rparr>),
       json_loads = sample_loads,
       splitext = split_last_dot,
       path_join = (\<lambda>a b. a @ ''/'' @ b),
       makedirs = (\<lambda>d. None),
       open_w = (\<lambda>p. None),
       json_dump = (\<lambda>p v. (None, sample_dumps v)) \<rparr>"

text \<open>The same request with a text file uploaded.\<close>

definition text_upload_env :: env where
  "text_upload_env =
     sample_env \<lparr> request_file := Some \<lparr> filename = ''notes.txt'', content = [] \<rparr> \<rparr>"

subsection \<open>Failure of the model step\<close>

text \<open>
  The ways the model step fails for a prompt: the model handle cannot be constructed or
  the call raises, the response has no candidates, its first candidate has no parts, the
  accessor \<open>response.text\<close> raises, or the text does not decode as JSON.
\<close>

definition llm_step_fails :: "env \<Rightarrow> string \<Rightarrow> bool" where
  "llm_step_fails w prompt =
     (model_new w \<noteq> None \<or>
      (case generate_content w prompt of
         Inl e \<Rightarrow> True
       | Inr resp \<Rightarrow>
           (case candidates resp of
              [] \<Rightarrow> True
            | c # cs \<Rightarrow>
                parts c = [] \<or>
                (case response_text resp of
                   Inl e \<Rightarrow> True
                 | Inr json_string \<Rightarrow>
                     (case json_loads w json_string of
                        Inl e \<Rightarrow> True
                      | Inr v \<Rightarrow> False)))))"

subsection \<open>Further sample environments\<close>

text \<open>A model that answers the given text, whatever the prompt.\<close>

definition answer :: "string \<Rightarrow> string \<Rightarrow> exn + response" where
  "answer t p = Inr \<lparr> candidates = [\<lparr> parts = [t] \<rparr>], response_text = Inr t \<rparr>"

text \<open>The model answers the JSON text \<open>null\<close>; no candidates; a text that is not JSON.\<close>

definition null_env :: env where
  "null_env = sample_env \<lparr> generate_content := answer ''null'' \<rparr>"

definition no_candidates_env :: env where
  "no_candidates_env =
     sample_env \<lparr> generate_content :=
       (\<lambda>p. Inr \<lparr> candidates = [], response_text = Inl (OtherError ''ValueError'') \<rparr>) \<rparr>"

definition bad_json_env :: env where
  "bad_json_env = sample_env \<lparr> generate_content := answer ''{oops'' \<rparr>"

text \<open>The output directory cannot be created.\<close>

definition makedirs_fail_env :: env where
  "makedirs_fail_env = sample_env \<lparr> makedirs := (\<lambda>d. Some (OtherError ''PermissionError'')) \<rparr>"

text \<open>The ontology file does not exist; the prompt file exists and cannot be read.\<close>

definition missing_ontology_env :: env where
  "missing_ontology_env =
     sample_env \<lparr> fs_read := (\<lambda>p. if p = PROMPT_FILE then Inr ''Extract.''
                                     else Inl FileNotFoundError) \<rparr>"

definition unreadable_prompt_env :: env where
  "unreadable_prompt_env =
     sample_env \<lparr> fs_read := (\<lambda>p. if p = ONTOLOGY_FILE then Inr ''<rdf/>''
                                     else Inl (OtherError ''PermissionError'')) \<rparr>"

text \<open>
  A PDF whose two pages hold no text; bytes that PyPDF2 refuses, alone and with the
  ontology file missing; a PDF that opens and whose second page cannot be read.
\<close>

definition blank_pdf_env :: env where
  "blank_pdf_env = sample_env \<lparr> pdf_reader := (\<lambda>b. Inr [Inr [], Inr []]) \<rparr>"

definition corrupt_pdf_env :: env where
  "corrupt_pdf_env = sample_env \<lparr> pdf_reader := (\<lambda>b. Inl PdfReadError) \<rparr>"

definition corrupt_pdf_no_config_env :: env where
  "corrupt_pdf_no_config_env = missing_ontology_env \<lparr> pdf_reader := (\<lambda>b. Inl PdfReadError) \<rparr>"

text \<open>The refused bytes uploaded under a name the validator turns down.\<close>

definition corrupt_text_upload_env :: env where
  "corrupt_text_upload_env =
     corrupt_pdf_env \<lparr> request_file := Some \<lparr> filename = ''notes.txt'', content = [] \<rparr> \<rparr>"

definition page_fail_env :: env where
  "page_fail_env =
     sample_env \<lparr> pdf_reader := (\<lambda>b. Inr [Inr ''one '', Inl (OtherError ''KeyError'')]) \<rparr>"

text \<open>
  An upload whose name is an absolute path, with a join that, like \<open>os.path.join\<close>,
  gives an absolute second argument alone.
\<close>

definition absolute_name_env :: env where
  "absolute_name_env =
     sample_env \<lparr> request_file := Some \<lparr> filename = ''/tmp/x.pdf'', content = [] \<rparr>,
                  path_join := (\<lambda>a b. if take 1 b = ''/'' then b else a @ ''/'' @ b) \<rparr>"

text \<open>
  The write of the result fails after the file was opened, nothing having reached it; a
  disk that holds an earlier result under the same name.
\<close>

definition disk_full_env :: env where
  "disk_full_env =
     sample_env \<lparr> json_dump := (\<lambda>p v. (Some (OtherError ''OSError''), [])) \<rparr>"

definition stale_disk :: "string \<rightharpoonup> stored" where
  "stale_disk = [''output/report_extraction.json'' \<mapsto> Document (PList [])]"

section \<open>Properties\<close>

lemmas model_defs =
  handle_extraction_def read_file_def extract_text_from_pdf_def pdf_failure_def
  extract_concepts_with_gemini_def save_output_def sample_env_def sample_loads_def
  sample_dumps_def split_last_dot_def ONTOLOGY_FILE_def PROMPT_FILE_def OUTPUT_DIR_def
  MODEL_NAME_def lower_def lower_char_def endswith_def full_prompt_def Let_def
  char_of_eq_iff

subsection \<open>What the helpers return and call\<close>

lemma full_prompt_composed:
  "full_prompt template ontology doc = composed_prompt template ontology doc"
  by (simp add: full_prompt_def composed_prompt_def fenced_block_def)

lemma llm_prompts_append: "llm_prompts (xs @ ys) = llm_prompts xs @ llm_prompts ys"
  by (induction xs rule: llm_prompts.induct) simp_all

lemma read_file_fst:
  "fst (read_file w p) = (case fs_read w p of Inl e \<Rightarrow> None | Inr s \<Rightarrow> Some s)"
  by (simp add: read_file_def split: sum.splits)

lemma read_file_prompts: "llm_prompts (snd (read_file w p)) = []"
  by (simp add: read_file_def split: sum.splits)

lemma extract_text_prompts: "llm_prompts (snd (extract_text_from_pdf w b)) = []"
  by (simp add: extract_text_from_pdf_def pdf_failure_def split: sum.splits)

lemma save_output_prompts: "llm_prompts (snd (save_output w f v d)) = []"
  by (simp add: save_output_def Let_def split: option.splits)

lemma gemini_prompts:
  "llm_prompts (snd (extract_concepts_with_gemini w doc ontology template)) =
     (if model_new w = None then [full_prompt template ontology doc] else [])"
  by (simp add: extract_concepts_with_gemini_def Let_def
      split: option.splits sum.splits list.splits)

text \<open>The prompts a request sends, read off the environment.\<close>

lemma handle_prompts:
  "llm_prompts (snd (handle_extraction w)) =
     (case request_file w of
        None \<Rightarrow> []
      | Some file \<Rightarrow>
          if filename file = [] \<or> \<not> endswith (lower (filename file)) ''.pdf'' then []
          else
            (case fs_read w ONTOLOGY_FILE of
               Inl e \<Rightarrow> []
             | Inr ontology \<Rightarrow>
                 (case fs_read w PROMPT_FILE of
                    Inl e \<Rightarrow> []
                  | Inr template \<Rightarrow>
                      (case fst (extract_text_from_pdf w (content file)) of
                         None \<Rightarrow> []
                       | Some doc \<Rightarrow>
                           if model_new w = None then [full_prompt template ontology doc]
                           else []))))"
  by (auto simp: handle_extraction_def Let_def split_beta llm_prompts_append
      read_file_fst read_file_prompts extract_text_prompts save_output_prompts gemini_prompts
      split: option.split sum.split)

subsection \<open>The composed prompt\<close>

text \<open>
  Claim C1. Whenever a request sends a prompt to the model, that prompt is the text read
  from the prompt template file, then the text read from the ontology file as a labelled
  \<open>xml\<close> block, then the text extracted from the uploaded PDF as a labelled \<open>text\<close>
  block, then the trailing marker \<open>EXTRACTED JSON OUTPUT:\<close>; and it is the only prompt
  the request sends.
\<close>

theorem prompt_composition:
  assumes "p \<in> set (llm_prompts (snd (handle_extraction w)))"
  shows "\<exists>file template ontology doc.
           request_file w = Some file \<and>
           fs_read w PROMPT_FILE = Inr template \<and>
           fs_read w ONTOLOGY_FILE = Inr ontology \<and>
           fst (extract_text_from_pdf w (content file)) = Some doc \<and>
           p = composed_prompt template ontology doc \<and>
           llm_prompts (snd (handle_extraction w)) = [p]"
proof -
  note hp = handle_prompts [of w]
  from assms obtain upl where up: "request_file w = Some upl"
    by (cases "request_file w") (simp_all add: hp)
  from assms up have valid: "filename upl \<noteq> []" "endswith (lower (filename upl)) ''.pdf''"
    by (auto simp: hp split: if_splits)
  from assms up valid obtain ontology where ontology: "fs_read w ONTOLOGY_FILE = Inr ontology"
    by (cases "fs_read w ONTOLOGY_FILE") (simp_all add: hp)
  from assms up valid ontology obtain template
    where template: "fs_read w PROMPT_FILE = Inr template"
    by (cases "fs_read w PROMPT_FILE") (simp_all add: hp)
  from assms up valid ontology template obtain doc
    where doc: "fst (extract_text_from_pdf w (content upl)) = Some doc"
    by (cases "fst (extract_text_from_pdf w (content upl))") (simp_all add: hp)
  from assms up valid ontology template doc
  have "p = composed_prompt template ontology doc \<and>
        llm_prompts (snd (handle_extraction w)) = [p]"
    by (auto simp: hp full_prompt_composed split: if_splits)
  with up ontology template doc show ?thesis by blast
qed

theorem prompt_composition_witness:
  "composed_prompt ''Extract.'' ''<rdf/>'' ''one two''
     \<in> set (llm_prompts (snd (handle_extraction sample_env))) \<and>
   (\<exists>file template ontology doc.
      request_file sample_env = Some file \<and>
      fs_read sample_env PROMPT_FILE = Inr template \<and>
      fs_read sample_env ONTOLOGY_FILE = Inr ontology \<and>
      fst (extract_text_from_pdf sample_env (content file)) = Some doc \<and>
      composed_prompt ''Extract.'' ''<rdf/>'' ''one two'' =
        composed_prompt template ontology doc \<and>
      llm_prompts (snd (handle_extraction sample_env)) =
        [composed_prompt ''Extract.'' ''<rdf/>'' ''one two''])"
proof -
  have h: "composed_prompt ''Extract.'' ''<rdf/>'' ''one two''
             \<in> set (llm_prompts (snd (handle_extraction sample_env)))"
    by (simp add: model_defs composed_prompt_def fenced_block_def)
  from prompt_composition [OF h] h show ?thesis by blast
qed

subsection \<open>File names ending in \<open>.pdf\<close>\<close>

lemma of_char_dot: "(of_char c :: nat) = 46 \<longleftrightarrow> c = CHR ''.''"
proof -
  have "(of_char (CHR ''.'') :: nat) = 46" by simp
  then have "(of_char c :: nat) = 46 \<longleftrightarrow> (of_char c :: nat) = of_char (CHR ''.'')" by simp
  then show ?thesis by (simp only: of_char_eq_iff)
qed

lemma lower_char_dot: "lower_char c = CHR ''.'' \<longleftrightarrow> c = CHR ''.''"
proof (cases "65 \<le> (of_char c :: nat) \<and> (of_char c :: nat) \<le> 90")
  case True
  then have "(of_char c :: nat) \<noteq> 46" by arith
  then have "c \<noteq> CHR ''.''" by (simp add: of_char_dot)
  moreover from True have "lower_char c \<noteq> CHR ''.''"
    by (simp add: lower_char_def Let_def char_of_eq_iff take_bit_eq_mod)
  ultimately show ?thesis by simp
next
  case False
  then show ?thesis by (auto simp: lower_char_def Let_def)
qed

lemma endswith_app: "endswith s t \<longleftrightarrow> (\<exists>pre. s = pre @ t)"
proof
  assume "endswith s t"
  then have "s = take (length s - length t) s @ t"
    by (simp add: endswith_def) (metis append_take_drop_id)
  then show "\<exists>pre. s = pre @ t" ..
next
  assume "\<exists>pre. s = pre @ t"
  then show "endswith s t" by (auto simp: endswith_def)
qed

lemma not_dot: "lower_char c = CHR ''f'' \<or> lower_char c = CHR ''d'' \<or> lower_char c = CHR ''p'' \<Longrightarrow> c \<noteq> CHR ''.''"
  using lower_char_dot [of c] by auto

lemma rev_ext:
  "(CHR ''.'' \<in> set r \<and> map lower_char (takeWhile (\<lambda>c. c \<noteq> CHR ''.'') r) = ''fdp'') \<longleftrightarrow>
   (\<exists>rest d c b. r = d # c # b # CHR ''.'' # rest \<and>
      lower_char d = CHR ''f'' \<and> lower_char c = CHR ''d'' \<and> lower_char b = CHR ''p'')"
  (is "?L \<longleftrightarrow> ?R")
proof
  assume ?R
  then obtain rest d c b where r: "r = d # c # b # CHR ''.'' # rest"
    and l: "lower_char d = CHR ''f''" "lower_char c = CHR ''d''" "lower_char b = CHR ''p''"
    by blast
  from l have "d \<noteq> CHR ''.''" "c \<noteq> CHR ''.''" "b \<noteq> CHR ''.''"
    by (simp_all add: not_dot)
  with r l show ?L by simp
next
  assume L: ?L
  show ?R
  proof (cases r)
    case Nil with L show ?thesis by simp
  next
    case (Cons d r1)
    with L have d: "d \<noteq> CHR ''.''" "lower_char d = CHR ''f''"
      and L1: "CHR ''.'' \<in> set r1" "map lower_char (takeWhile (\<lambda>c. c \<noteq> CHR ''.'') r1) = ''dp''"
      by (auto split: if_splits)
    show ?thesis
    proof (cases r1)
      case Nil with L1 show ?thesis by simp
    next
      case (Cons c r2)
      with L1 have c: "c \<noteq> CHR ''.''" "lower_char c = CHR ''d''"
        and L2: "CHR ''.'' \<in> set r2" "map lower_char (takeWhile (\<lambda>c. c \<noteq> CHR ''.'') r2) = ''p''"
        by (auto split: if_splits)
      show ?thesis
      proof (cases r2)
        case Nil with L2 show ?thesis by simp
      next
        case (Cons b r3)
        with L2 have b: "b \<noteq> CHR ''.''" "lower_char b = CHR ''p''"
          and L3: "CHR ''.'' \<in> set r3" "map lower_char (takeWhile (\<lambda>c. c \<noteq> CHR ''.'') r3) = []"
          by (auto split: if_splits)
        from L3 obtain a r4 where r3: "r3 = a # r4" by (cases r3) auto
        with L3 have "a = CHR ''.''" by (auto split: if_splits)
        with r3 \<open>r2 = b # r3\<close> \<open>r1 = c # r2\<close> \<open>r = d # r1\<close> d c b show ?thesis by simp
      qed
    qed
  qed
qed

lemma rev_endswith:
  "endswith (lower s) ''.pdf'' \<longleftrightarrow>
   (\<exists>rest d c b. rev s = d # c # b # CHR ''.'' # rest \<and>
      lower_char d = CHR ''f'' \<and> lower_char c = CHR ''d'' \<and> lower_char b = CHR ''p'')"
  (is "?L \<longleftrightarrow> ?R")
proof
  assume ?L
  then obtain pre where "lower s = pre @ ''.pdf''" by (auto simp: endswith_app)
  then have "map lower_char (rev s) = ''fdp.'' @ rev pre"
    by (simp add: lower_def rev_map [symmetric])
  then show ?R by (auto simp: map_eq_Cons_conv lower_char_dot)
next
  assume ?R
  then obtain rest d c b where r: "rev s = d # c # b # CHR ''.'' # rest"
    and l: "lower_char d = CHR ''f''" "lower_char c = CHR ''d''" "lower_char b = CHR ''p''"
    by blast
  from r have "s = rev rest @ [CHR ''.'', b, c, d]" by (simp add: rev_swap)
  with l have "lower s = lower (rev rest) @ ''.pdf''"
    by (simp add: lower_def lower_char_dot)
  then show ?L by (auto simp: endswith_app)
qed

lemma extension_pdf_iff:
  "lower (extension_of s) = ''.pdf'' \<longleftrightarrow> endswith (lower s) ''.pdf''"
proof -
  have "lower (extension_of s) = ''.pdf'' \<longleftrightarrow>
        (CHR ''.'' \<in> set (rev s) \<and>
         map lower_char (takeWhile (\<lambda>c. c \<noteq> CHR ''.'') (rev s)) = ''fdp'')"
    by (auto simp: extension_of_def split_last_dot_def lower_def lower_char_dot rev_map [symmetric] rev_swap)
  then show ?thesis by (simp only: rev_ext rev_endswith)
qed

subsection \<open>What the handler returns and calls\<close>

lemma config_reads_append: "config_reads (xs @ ys) = config_reads xs @ config_reads ys"
  by (induction xs rule: config_reads.induct) simp_all

lemma pdf_opens_append: "pdf_opens (xs @ ys) = pdf_opens xs @ pdf_opens ys"
  by (induction xs rule: pdf_opens.induct) simp_all

lemma output_writes_Nil: "output_writes [] = []"
  by (simp add: output_writes_def)

lemma output_writes_append: "output_writes (xs @ ys) = output_writes xs @ output_writes ys"
  by (simp add: output_writes_def)

lemma read_file_reads: "config_reads (snd (read_file w p)) = [p]"
  by (simp add: read_file_def split: sum.splits)

lemma read_file_opens: "pdf_opens (snd (read_file w p)) = []"
  by (simp add: read_file_def split: sum.splits)

lemma read_file_writes: "output_writes (snd (read_file w p)) = []"
  by (simp add: read_file_def output_writes_def split: sum.splits)

lemma extract_text_reads: "config_reads (snd (extract_text_from_pdf w b)) = []"
  by (simp add: extract_text_from_pdf_def pdf_failure_def split: sum.splits)

lemma extract_text_opens: "pdf_opens (snd (extract_text_from_pdf w b)) = [b]"
  by (simp add: extract_text_from_pdf_def pdf_failure_def split: sum.splits)

lemma extract_text_writes: "output_writes (snd (extract_text_from_pdf w b)) = []"
  by (simp add: extract_text_from_pdf_def pdf_failure_def output_writes_def split: sum.splits)

lemma gemini_reads: "config_reads (snd (extract_concepts_with_gemini w doc ontology template)) = []"
  by (simp add: extract_concepts_with_gemini_def Let_def
      split: option.splits sum.splits list.splits)

lemma gemini_opens: "pdf_opens (snd (extract_concepts_with_gemini w doc ontology template)) = []"
  by (simp add: extract_concepts_with_gemini_def Let_def
      split: option.splits sum.splits list.splits)

lemma gemini_writes: "output_writes (snd (extract_concepts_with_gemini w doc ontology template)) = []"
  by (simp add: extract_concepts_with_gemini_def Let_def output_writes_def
      split: option.splits sum.splits list.splits)

lemma save_output_reads: "config_reads (snd (save_output w f v d)) = []"
  by (simp add: save_output_def Let_def split: option.splits)

lemma save_output_opens: "pdf_opens (snd (save_output w f v d)) = []"
  by (simp add: save_output_def Let_def split: option.splits)

lemma save_output_fst:
  "fst (save_output w f v d) =
     (case makedirs w d of None \<Rightarrow> None | Some e \<Rightarrow> Some UnboundLocalError)"
  by (simp add: save_output_def Let_def split: option.splits)

lemma save_output_writes:
  "output_writes (snd (save_output w f v d)) =
     (case makedirs w d of
        Some e \<Rightarrow> [Makedirs d]
      | None \<Rightarrow>
          (case open_w w (path_join w d f) of
             Some e \<Rightarrow> [Makedirs d, OpenWrite (path_join w d f)]
           | None \<Rightarrow> [Makedirs d, OpenWrite (path_join w d f), JsonDump (path_join w d f) v]))"
  by (simp add: save_output_def Let_def output_writes_def split: option.splits)

lemma handle_fst:
  "fst (handle_extraction w) =
     (case request_file w of
        None \<Rightarrow> Response (ErrorBody ''No file part in the request'') 400
      | Some file \<Rightarrow>
          if filename file = [] then Response (ErrorBody ''No selected file'') 400
          else if \<not> endswith (lower (filename file)) ''.pdf'' then
            Response (ErrorBody ''Invalid file type. Please upload a PDF.'') 400
          else
            (case fs_read w ONTOLOGY_FILE of
               Inl e \<Rightarrow>
                 Response (ErrorBody ''Server configuration error reading ontology or prompt.'') 500
             | Inr ontology \<Rightarrow>
                 (case fs_read w PROMPT_FILE of
                    Inl e \<Rightarrow>
                      Response (ErrorBody
                        ''Server configuration error reading ontology or prompt.'') 500
                  | Inr template \<Rightarrow>
                      (case fst (extract_text_from_pdf w (content file)) of
                         None \<Rightarrow>
                           Response (ErrorBody
                             ''Failed to extract text from the PDF file. It might be invalid, corrupted, or image-based.'')
                             400
                       | Some doc \<Rightarrow>
                           if fst (extract_concepts_with_gemini w doc ontology template) = PNone
                           then Response (ErrorBody
                                  ''Failed to extract information using the AI model.'') 500
                           else
                             (case makedirs w OUTPUT_DIR of
                                Some e \<Rightarrow> Raised UnboundLocalError
                              | None \<Rightarrow>
                                  Response (JsonBody
                                    (fst (extract_concepts_with_gemini w doc ontology template)))
                                    200)))))"
  by (auto simp: handle_extraction_def Let_def split_beta read_file_fst save_output_fst
      split: option.split sum.split)

lemma handle_config_reads:
  "config_reads (snd (handle_extraction w)) =
     (case request_file w of
        None \<Rightarrow> []
      | Some file \<Rightarrow>
          if filename file = [] \<or> \<not> endswith (lower (filename file)) ''.pdf'' then []
          else [ONTOLOGY_FILE, PROMPT_FILE])"
  by (auto simp: handle_extraction_def Let_def split_beta config_reads_append
      read_file_reads extract_text_reads gemini_reads save_output_reads
      split: option.split sum.split)

lemma handle_pdf_opens:
  "pdf_opens (snd (handle_extraction w)) =
     (case request_file w of
        None \<Rightarrow> []
      | Some file \<Rightarrow>
          if filename file = [] \<or> \<not> endswith (lower (filename file)) ''.pdf'' then []
          else
            (case fs_read w ONTOLOGY_FILE of
               Inl e \<Rightarrow> []
             | Inr ontology \<Rightarrow>
                 (case fs_read w PROMPT_FILE of
                    Inl e \<Rightarrow> []
                  | Inr template \<Rightarrow> [content file])))"
  by (auto simp: handle_extraction_def Let_def split_beta pdf_opens_append read_file_fst
      read_file_opens extract_text_opens gemini_opens save_output_opens
      split: option.split sum.split)

lemma handle_writes:
  "output_writes (snd (handle_extraction w)) =
     (case request_file w of
        None \<Rightarrow> []
      | Some file \<Rightarrow>
          if filename file = [] \<or> \<not> endswith (lower (filename file)) ''.pdf'' then []
          else
            (case fs_read w ONTOLOGY_FILE of
               Inl e \<Rightarrow> []
             | Inr ontology \<Rightarrow>
                 (case fs_read w PROMPT_FILE of
                    Inl e \<Rightarrow> []
                  | Inr template \<Rightarrow>
                      (case fst (extract_text_from_pdf w (content file)) of
                         None \<Rightarrow> []
                       | Some doc \<Rightarrow>
                           if fst (extract_concepts_with_gemini w doc ontology template) = PNone
                           then []
                           else
                             output_writes (snd (save_output w
                               (fst (splitext w (filename file)) @ ''_extraction.json'')
                               (fst (extract_concepts_with_gemini w doc ontology template))
                               OUTPUT_DIR))))))"
  by (auto simp: handle_extraction_def Let_def split_beta output_writes_append output_writes_Nil
      read_file_fst read_file_writes extract_text_writes gemini_writes
      split: option.split sum.split)

lemmas env_defs =
  null_env_def no_candidates_env_def bad_json_env_def makedirs_fail_env_def
  missing_ontology_env_def unreadable_prompt_env_def answer_def blank_pdf_env_def
  corrupt_pdf_env_def corrupt_pdf_no_config_env_def corrupt_text_upload_env_def
  page_fail_env_def
  absolute_name_env_def disk_full_env_def stale_disk_def

subsection \<open>The model step, the page loop and the files\<close>

lemma gemini_fst:
  "fst (extract_concepts_with_gemini w doc ontology template) =
     (case model_new w of
        Some e \<Rightarrow> PNone
      | None \<Rightarrow>
          (case generate_content w (full_prompt template ontology doc) of
             Inl e \<Rightarrow> PNone
           | Inr resp \<Rightarrow>
               (case candidates resp of
                  [] \<Rightarrow> PNone
                | c # cs \<Rightarrow>
                    if parts c = [] then PNone
                    else
                      (case response_text resp of
                         Inl e \<Rightarrow> PNone
                       | Inr json_string \<Rightarrow>
                           (case json_loads w json_string of
                              Inl e \<Rightarrow> PNone
                            | Inr v \<Rightarrow> v)))))"
  by (simp add: extract_concepts_with_gemini_def Let_def
      split: option.splits sum.splits list.splits)

lemma gemini_fails: "llm_step_fails w (full_prompt template ontology doc) \<Longrightarrow>
   fst (extract_concepts_with_gemini w doc ontology template) = PNone"
  by (auto simp: gemini_fst llm_step_fails_def split: option.splits sum.splits list.splits)

lemma extract_pages_texts: "extract_pages (map Inr texts) acc = Inr (acc @ concat texts)"
  by (induction texts arbitrary: acc) simp_all

lemma extract_text_texts:
  "pdf_reader w b = Inr (map Inr texts) \<Longrightarrow>
   fst (extract_text_from_pdf w b) = Some (concat texts)"
  by (simp add: extract_text_from_pdf_def extract_pages_texts)



subsection \<open>The request validator\<close>

lemma rejection_iff:
  "validator_rejection (fst (handle_extraction w)) \<longleftrightarrow>
     (case request_file w of
        None \<Rightarrow> True
      | Some file \<Rightarrow> filename file = [] \<or> \<not> endswith (lower (filename file)) ''.pdf'')"
  by (simp add: handle_fst validator_rejection_def split: option.split sum.split)

lemma save_output_writes_cases:
  "x \<in> set (output_writes (snd (save_output w f v d))) \<Longrightarrow>
     x = Makedirs d \<or> x = OpenWrite (path_join w d f) \<or> x = JsonDump (path_join w d f) v"
  by (auto simp: save_output_writes split: option.splits)

lemma handle_writes_cases:
  assumes "request_file w = Some upl"
    and "x \<in> set (output_writes (snd (handle_extraction w)))"
  shows "x = Makedirs OUTPUT_DIR \<or> x = OpenWrite (output_path w (filename upl)) \<or>
         (\<exists>v. x = JsonDump (output_path w (filename upl)) v)"
  using assms
  by (auto simp: handle_writes output_path_def
      split: if_splits sum.splits option.splits dest!: save_output_writes_cases)

text \<open>
  The path of a request answered with 200, and the writes it makes.
\<close>

lemma success_path:
  assumes "fst (handle_extraction w) = Response (JsonBody v) 200"
    and "request_file w = Some upl"
  shows "filename upl \<noteq> [] \<and> endswith (lower (filename upl)) ''.pdf'' \<and>
         (\<exists>ontology template doc.
            fs_read w ONTOLOGY_FILE = Inr ontology \<and> fs_read w PROMPT_FILE = Inr template \<and>
            fst (extract_text_from_pdf w (content upl)) = Some doc \<and>
            fst (extract_concepts_with_gemini w doc ontology template) = v) \<and>
         v \<noteq> PNone \<and> makedirs w OUTPUT_DIR = None"
proof -
  from assms have valid: "filename upl \<noteq> []" "endswith (lower (filename upl)) ''.pdf''"
    by (auto simp: handle_fst split: if_splits)
  from assms valid obtain ontology where o: "fs_read w ONTOLOGY_FILE = Inr ontology"
    by (cases "fs_read w ONTOLOGY_FILE") (simp_all add: handle_fst)
  from assms valid o obtain template where t: "fs_read w PROMPT_FILE = Inr template"
    by (cases "fs_read w PROMPT_FILE") (simp_all add: handle_fst)
  from assms valid o t obtain doc
    where d: "fst (extract_text_from_pdf w (content upl)) = Some doc"
    by (cases "fst (extract_text_from_pdf w (content upl))") (simp_all add: handle_fst)
  from assms valid o t d
  have "fst (extract_concepts_with_gemini w doc ontology template) = v \<and> v \<noteq> PNone \<and>
        makedirs w OUTPUT_DIR = None"
    by (auto simp: handle_fst split: if_splits option.splits)
  with valid o t d show ?thesis by blast
qed

lemma success_writes:
  assumes "fst (handle_extraction w) = Response (JsonBody v) 200"
    and "request_file w = Some upl"
  shows "output_writes (snd (handle_extraction w)) =
           [Makedirs OUTPUT_DIR, OpenWrite (output_path w (filename upl))] @
           (if open_w w (output_path w (filename upl)) = None
            then [JsonDump (output_path w (filename upl)) v] else [])"
proof -
  from success_path [OF assms] obtain ontology template doc
    where f: "filename upl \<noteq> []" "endswith (lower (filename upl)) ''.pdf''"
      "fs_read w ONTOLOGY_FILE = Inr ontology" "fs_read w PROMPT_FILE = Inr template"
      "fst (extract_text_from_pdf w (content upl)) = Some doc"
      "fst (extract_concepts_with_gemini w doc ontology template) = v"
      "v \<noteq> PNone" "makedirs w OUTPUT_DIR = None"
    by blast
  from assms(2) f show ?thesis
    by (simp add: handle_writes save_output_writes output_path_def split: option.split)
qed

text \<open>
  Claim C2. The handler answers with one of the validator's three responses (status 400,
  an error payload) exactly when the file part is missing, or the file name is empty, or
  the extension of the file name, lowercased, is not \<open>.pdf\<close>. When it does, no
  configuration file is read and no prompt is sent. When it does not, both configuration
  files are read; once both are read, PyPDF2 is given exactly the uploaded bytes; every
  write goes to the output directory or to the path derived from the uploaded file name;
  and a request answered with 200 has opened that path and, the file open, written the
  returned value to it.
\<close>

theorem validator_contract:
  "(validator_rejection (fst (handle_extraction w)) \<longleftrightarrow>
      (case request_file w of
         None \<Rightarrow> True
       | Some file \<Rightarrow>
           filename file = [] \<or> lower (extension_of (filename file)) \<noteq> ''.pdf'')) \<and>
   (validator_rejection (fst (handle_extraction w)) \<longrightarrow>
      (\<exists>m. fst (handle_extraction w) = Response (ErrorBody m) 400) \<and>
      config_reads (snd (handle_extraction w)) = [] \<and>
      llm_prompts (snd (handle_extraction w)) = []) \<and>
   (\<not> validator_rejection (fst (handle_extraction w)) \<longrightarrow>
      (\<exists>file. request_file w = Some file \<and>
         config_reads (snd (handle_extraction w)) = [ONTOLOGY_FILE, PROMPT_FILE] \<and>
         pdf_opens (snd (handle_extraction w)) =
           (case fs_read w ONTOLOGY_FILE of
              Inl e \<Rightarrow> []
            | Inr ontology \<Rightarrow>
                (case fs_read w PROMPT_FILE of
                   Inl e \<Rightarrow> []
                 | Inr template \<Rightarrow> [content file])) \<and>
         set (output_writes (snd (handle_extraction w))) \<subseteq>
           {Makedirs OUTPUT_DIR, OpenWrite (output_path w (filename file))} \<union>
           range (JsonDump (output_path w (filename file))) \<and>
         (\<forall>v. fst (handle_extraction w) = Response (JsonBody v) 200 \<longrightarrow>
            output_writes (snd (handle_extraction w)) =
              [Makedirs OUTPUT_DIR, OpenWrite (output_path w (filename file))] @
              (if open_w w (output_path w (filename file)) = None
               then [JsonDump (output_path w (filename file)) v] else []))))"
proof (intro conjI impI)
  show "validator_rejection (fst (handle_extraction w)) \<longleftrightarrow>
      (case request_file w of
         None \<Rightarrow> True
       | Some file \<Rightarrow>
           filename file = [] \<or> lower (extension_of (filename file)) \<noteq> ''.pdf'')"
    by (simp add: rejection_iff extension_pdf_iff split: option.split)
next
  assume "validator_rejection (fst (handle_extraction w))"
  then show "\<exists>m. fst (handle_extraction w) = Response (ErrorBody m) 400"
    by (auto simp: validator_rejection_def)
next
  assume "validator_rejection (fst (handle_extraction w))"
  then show "config_reads (snd (handle_extraction w)) = []"
    by (auto simp: rejection_iff handle_config_reads split: option.splits)
next
  assume "validator_rejection (fst (handle_extraction w))"
  then show "llm_prompts (snd (handle_extraction w)) = []"
    by (auto simp: rejection_iff handle_prompts split: option.splits)
next
  assume "\<not> validator_rejection (fst (handle_extraction w))"
  then obtain upl where up: "request_file w = Some upl"
    and valid: "filename upl \<noteq> []" "endswith (lower (filename upl)) ''.pdf''"
    by (auto simp: rejection_iff split: option.splits)
  have "config_reads (snd (handle_extraction w)) = [ONTOLOGY_FILE, PROMPT_FILE]"
    by (simp add: handle_config_reads up valid)
  moreover have "pdf_opens (snd (handle_extraction w)) =
           (case fs_read w ONTOLOGY_FILE of
              Inl e \<Rightarrow> []
            | Inr ontology \<Rightarrow>
                (case fs_read w PROMPT_FILE of
                   Inl e \<Rightarrow> []
                 | Inr template \<Rightarrow> [content upl]))"
    by (simp add: handle_pdf_opens up valid)
  moreover have "set (output_writes (snd (handle_extraction w))) \<subseteq>
           {Makedirs OUTPUT_DIR, OpenWrite (output_path w (filename upl))} \<union>
           range (JsonDump (output_path w (filename upl)))"
    using handle_writes_cases [OF up] by blast
  moreover have "\<forall>v. fst (handle_extraction w) = Response (JsonBody v) 200 \<longrightarrow>
            output_writes (snd (handle_extraction w)) =
              [Makedirs OUTPUT_DIR, OpenWrite (output_path w (filename upl))] @
              (if open_w w (output_path w (filename upl)) = None
               then [JsonDump (output_path w (filename upl)) v] else [])"
    using success_writes [OF _ up] by blast
  ultimately show "\<exists>file. request_file w = Some file \<and>
         config_reads (snd (handle_extraction w)) = [ONTOLOGY_FILE, PROMPT_FILE] \<and>
         pdf_opens (snd (handle_extraction w)) =
           (case fs_read w ONTOLOGY_FILE of
              Inl e \<Rightarrow> []
            | Inr ontology \<Rightarrow>
                (case fs_read w PROMPT_FILE of
                   Inl e \<Rightarrow> []
                 | Inr template \<Rightarrow> [content file])) \<and>
         set (output_writes (snd (handle_extraction w))) \<subseteq>
           {Makedirs OUTPUT_DIR, OpenWrite (output_path w (filename file))} \<union>
           range (JsonDump (output_path w (filename file))) \<and>
         (\<forall>v. fst (handle_extraction w) = Response (JsonBody v) 200 \<longrightarrow>
            output_writes (snd (handle_extraction w)) =
              [Makedirs OUTPUT_DIR, OpenWrite (output_path w (filename file))] @
              (if open_w w (output_path w (filename file)) = None
               then [JsonDump (output_path w (filename file)) v] else []))"
    using up by blast
qed

theorem validator_contract_witness:
  "validator_rejection (fst (handle_extraction text_upload_env)) \<and>
   lower (extension_of ''notes.txt'') \<noteq> ''.pdf'' \<and>
   fst (handle_extraction text_upload_env) =
     Response (ErrorBody ''Invalid file type. Please upload a PDF.'') 400 \<and>
   config_reads (snd (handle_extraction text_upload_env)) = [] \<and>
   llm_prompts (snd (handle_extraction text_upload_env)) = [] \<and>
   \<not> validator_rejection (fst (handle_extraction sample_env)) \<and>
   lower (extension_of ''report.PDF'') = ''.pdf'' \<and>
   fst (handle_extraction sample_env) = Response (JsonBody (PDict [])) 200 \<and>
   config_reads (snd (handle_extraction sample_env)) = [ONTOLOGY_FILE, PROMPT_FILE] \<and>
   pdf_opens (snd (handle_extraction sample_env)) = [[0x25, 0x50, 0x44, 0x46]] \<and>
   output_writes (snd (handle_extraction sample_env)) =
     [Makedirs OUTPUT_DIR, OpenWrite ''output/report_extraction.json'',
      JsonDump ''output/report_extraction.json'' (PDict [])]"
proof -
  let ?u = "\<lparr> filename = ''report.PDF'', content = [0x25, 0x50, 0x44, 0x46] \<rparr>"
  have f1: "request_file text_upload_env = Some \<lparr> filename = ''notes.txt'', content = [] \<rparr>"
    by (simp add: text_upload_env_def sample_env_def)
  have f2: "request_file sample_env = Some ?u"
    by (simp add: sample_env_def)
  have e1: "lower (extension_of ''notes.txt'') \<noteq> ''.pdf''"
    by (simp add: extension_of_def model_defs)
  have e2: "lower (extension_of ''report.PDF'') = ''.pdf''"
    by (simp add: extension_of_def model_defs)
  have p: "output_path sample_env (filename ?u) = ''output/report_extraction.json''"
    by (simp add: output_path_def model_defs)
  have c: "fs_read sample_env ONTOLOGY_FILE = Inr ''<rdf/>''"
    "fs_read sample_env PROMPT_FILE = Inr ''Extract.''"
    "open_w sample_env ''output/report_extraction.json'' = None"
    by (simp_all add: model_defs)
  have r: "fst (handle_extraction text_upload_env) =
     Response (ErrorBody ''Invalid file type. Please upload a PDF.'') 400"
    by (simp add: text_upload_env_def model_defs)
  have ok: "fst (handle_extraction sample_env) = Response (JsonBody (PDict [])) 200"
    by (simp add: model_defs)
  from validator_contract [of text_upload_env] f1 e1
  have a: "validator_rejection (fst (handle_extraction text_upload_env)) \<and>
           config_reads (snd (handle_extraction text_upload_env)) = [] \<and>
           llm_prompts (snd (handle_extraction text_upload_env)) = []"
    by simp
  from validator_contract [of sample_env] f2 e2
  have n: "\<not> validator_rejection (fst (handle_extraction sample_env))" by simp
  with validator_contract [of sample_env] f2
  have b: "config_reads (snd (handle_extraction sample_env)) = [ONTOLOGY_FILE, PROMPT_FILE] \<and>
     pdf_opens (snd (handle_extraction sample_env)) =
       (case fs_read sample_env ONTOLOGY_FILE of
              Inl e \<Rightarrow> []
            | Inr ontology \<Rightarrow>
                (case fs_read sample_env PROMPT_FILE of
                   Inl e \<Rightarrow> []
                 | Inr template \<Rightarrow> [content ?u])) \<and>
     (\<forall>v. fst (handle_extraction sample_env) = Response (JsonBody v) 200 \<longrightarrow>
            output_writes (snd (handle_extraction sample_env)) =
              [Makedirs OUTPUT_DIR, OpenWrite (output_path sample_env (filename ?u))] @
              (if open_w sample_env (output_path sample_env (filename ?u)) = None
               then [JsonDump (output_path sample_env (filename ?u)) v] else []))"
    by simp
  from b c have b1: "pdf_opens (snd (handle_extraction sample_env)) = [[0x25, 0x50, 0x44, 0x46]]"
    by simp
  from b ok have "output_writes (snd (handle_extraction sample_env)) =
              [Makedirs OUTPUT_DIR, OpenWrite (output_path sample_env (filename ?u))] @
              (if open_w sample_env (output_path sample_env (filename ?u)) = None
               then [JsonDump (output_path sample_env (filename ?u)) (PDict [])] else [])"
    by blast
  with p c have b2: "output_writes (snd (handle_extraction sample_env)) =
     [Makedirs OUTPUT_DIR, OpenWrite ''output/report_extraction.json'',
      JsonDump ''output/report_extraction.json'' (PDict [])]"
    by simp
  from a n b b1 b2 e1 e2 r ok show ?thesis by blast
qed

subsection \<open>Passing the decoded value through\<close>

text \<open>
  Claim C3. The model answers the JSON text \<open>null\<close>, which \<open>json.loads\<close> decodes to
  Python's \<open>None\<close>. \<open>extract_concepts_with_gemini\<close> returns it as its result, and
  \<open>handle_extraction\<close>, which reads \<open>None\<close> as failure, answers 500 with an error payload
  instead of 200 with \<open>null\<close>.
\<close>

theorem null_answer_rejected:
  "json_loads null_env ''null'' = Inr PNone \<and>
   fst (extract_concepts_with_gemini null_env ''one two'' ''<rdf/>'' ''Extract.'') = PNone \<and>
   handle_extraction null_env =
     (Response (ErrorBody ''Failed to extract information using the AI model.'') 500,
      [ReadFile ONTOLOGY_FILE, ReadFile PROMPT_FILE, PdfOpen [0x25, 0x50, 0x44, 0x46],
       ModelNew MODEL_NAME, Generate (full_prompt ''Extract.'' ''<rdf/>'' ''one two'')])"
  by (simp add: model_defs env_defs)

text \<open>
  Every other decoded value is returned with status 200, provided the output directory
  can be created.
\<close>

lemma decoded_value_returned:
  assumes "request_file w = Some upl" "filename upl \<noteq> []"
    "endswith (lower (filename upl)) ''.pdf''"
    "fs_read w ONTOLOGY_FILE = Inr ontology" "fs_read w PROMPT_FILE = Inr template"
    "fst (extract_text_from_pdf w (content upl)) = Some doc"
    "model_new w = None"
    "generate_content w (full_prompt template ontology doc) = Inr resp"
    "candidates resp = c # cs" "parts c \<noteq> []"
    "response_text resp = Inr json_string" "json_loads w json_string = Inr v"
    "v \<noteq> PNone" "makedirs w OUTPUT_DIR = None"
  shows "fst (handle_extraction w) = Response (JsonBody v) 200"
  using assms by (simp add: handle_fst gemini_fst)

subsection \<open>Failure of the model step\<close>

text \<open>
  Claim C4. In a request that reaches the model step (the validator passed, both
  configuration files were read, the text was extracted), if the step fails (no
  candidates, a first candidate without parts, a text that is not JSON, or a raise of the
  provider) then the response is 500 with an error payload and no write is attempted.
\<close>

theorem llm_failure_response:
  assumes "request_file w = Some upl" "filename upl \<noteq> []"
    "endswith (lower (filename upl)) ''.pdf''"
    "fs_read w ONTOLOGY_FILE = Inr ontology" "fs_read w PROMPT_FILE = Inr template"
    "fst (extract_text_from_pdf w (content upl)) = Some doc"
    "llm_step_fails w (full_prompt template ontology doc)"
  shows "fst (handle_extraction w) =
           Response (ErrorBody ''Failed to extract information using the AI model.'') 500 \<and>
         output_writes (snd (handle_extraction w)) = []"
  using assms by (simp add: handle_fst handle_writes gemini_fails)

theorem llm_failure_response_witness:
  "llm_step_fails no_candidates_env (full_prompt ''Extract.'' ''<rdf/>'' ''one two'') \<and>
   fst (handle_extraction no_candidates_env) =
     Response (ErrorBody ''Failed to extract information using the AI model.'') 500 \<and>
   output_writes (snd (handle_extraction no_candidates_env)) = [] \<and>
   llm_step_fails bad_json_env (full_prompt ''Extract.'' ''<rdf/>'' ''one two'') \<and>
   fst (handle_extraction bad_json_env) =
     Response (ErrorBody ''Failed to extract information using the AI model.'') 500 \<and>
   output_writes (snd (handle_extraction bad_json_env)) = []"
proof -
  let ?u = "\<lparr> filename = ''report.PDF'', content = [0x25, 0x50, 0x44, 0x46] \<rparr>"
  have a1: "request_file no_candidates_env = Some ?u" "filename ?u \<noteq> []"
    "endswith (lower (filename ?u)) ''.pdf''"
    "fs_read no_candidates_env ONTOLOGY_FILE = Inr ''<rdf/>''"
    "fs_read no_candidates_env PROMPT_FILE = Inr ''Extract.''"
    "fst (extract_text_from_pdf no_candidates_env (content ?u)) = Some ''one two''"
    by (simp_all add: model_defs env_defs)
  have a2: "llm_step_fails no_candidates_env (full_prompt ''Extract.'' ''<rdf/>'' ''one two'')"
    by (simp add: llm_step_fails_def model_defs env_defs)
  have b1: "request_file bad_json_env = Some ?u"
    "fs_read bad_json_env ONTOLOGY_FILE = Inr ''<rdf/>''"
    "fs_read bad_json_env PROMPT_FILE = Inr ''Extract.''"
    "fst (extract_text_from_pdf bad_json_env (content ?u)) = Some ''one two''"
    by (simp_all add: model_defs env_defs)
  have b2: "llm_step_fails bad_json_env (full_prompt ''Extract.'' ''<rdf/>'' ''one two'')"
    by (simp add: llm_step_fails_def model_defs env_defs)
  from llm_failure_response [OF a1 a2]
       llm_failure_response [OF b1(1) a1(2,3) b1(2,3,4) b2] a2 b2
  show ?thesis by blast
qed

subsection \<open>The extracted text\<close>

lemma well_formed_iff:
  "well_formed_pdf w b \<longleftrightarrow> (\<exists>texts. pdf_reader w b = Inr (map Inr texts))"
proof -
  have "list_all (\<lambda>page. \<not> isl page) pages \<longleftrightarrow> (\<exists>texts. pages = map Inr texts)"
    for pages :: "(exn + string) list"
  proof (induction pages)
    case Nil
    then show ?case by simp
  next
    case (Cons p ps)
    show ?case
    proof (cases p)
      case (Inl e)
      then show ?thesis by (auto simp: map_eq_Cons_conv)
    next
      case (Inr t)
      with Cons show ?thesis by (auto simp: Cons_eq_map_conv)
    qed
  qed
  then show ?thesis by (auto simp: well_formed_pdf_def split: sum.splits)
qed

text \<open>
  Claim C5. For a well-formed PDF the extracted text is the concatenation of the texts of
  its pages, in page order, with no separator: the empty string, and not a failure, when
  no page yields text. A request that reached the extractor (the validator passed, both
  configuration files were read) then sends exactly one prompt, whose document section
  holds that text, the model handle being constructed.
\<close>

theorem pdf_text_concatenation:
  assumes "pdf_reader w b = Inr (map Inr texts)"
  shows "fst (extract_text_from_pdf w b) = Some (concat texts) \<and>
         (request_file w = Some upl \<and> content upl = b \<and>
          \<not> validator_rejection (fst (handle_extraction w)) \<and>
          fs_read w ONTOLOGY_FILE = Inr ontology \<and> fs_read w PROMPT_FILE = Inr template \<and>
          model_new w = None \<longrightarrow>
            llm_prompts (snd (handle_extraction w)) =
              [composed_prompt template ontology (concat texts)])"
proof (intro conjI impI)
  from assms show t: "fst (extract_text_from_pdf w b) = Some (concat texts)"
    by (rule extract_text_texts)
  assume a: "request_file w = Some upl \<and> content upl = b \<and>
          \<not> validator_rejection (fst (handle_extraction w)) \<and>
          fs_read w ONTOLOGY_FILE = Inr ontology \<and> fs_read w PROMPT_FILE = Inr template \<and>
          model_new w = None"
  then have valid: "filename upl \<noteq> []" "endswith (lower (filename upl)) ''.pdf''"
    by (auto simp: rejection_iff)
  from a t valid show "llm_prompts (snd (handle_extraction w)) =
              [composed_prompt template ontology (concat texts)]"
    by (simp add: handle_prompts full_prompt_composed)
qed

theorem pdf_text_concatenation_witness:
  "pdf_reader blank_pdf_env [0x25, 0x50, 0x44, 0x46] = Inr (map Inr [[], []]) \<and>
   fst (extract_text_from_pdf blank_pdf_env [0x25, 0x50, 0x44, 0x46]) = Some [] \<and>
   llm_prompts (snd (handle_extraction blank_pdf_env)) =
     [composed_prompt ''Extract.'' ''<rdf/>'' []] \<and>
   pdf_reader sample_env [0x25, 0x50, 0x44, 0x46] = Inr (map Inr [''one '', ''two'']) \<and>
   fst (extract_text_from_pdf sample_env [0x25, 0x50, 0x44, 0x46]) = Some ''one two''"
proof -
  let ?b = "[0x25, 0x50, 0x44, 0x46] :: bytes"
  let ?u = "\<lparr> filename = ''report.PDF'', content = ?b \<rparr>"
  have r: "pdf_reader blank_pdf_env ?b = Inr (map Inr [[], []])"
    by (simp add: model_defs env_defs)
  have r2: "pdf_reader sample_env ?b = Inr (map Inr [''one '', ''two''])"
    by (simp add: model_defs)
  have h: "request_file blank_pdf_env = Some ?u \<and> content ?u = ?b \<and>
          \<not> validator_rejection (fst (handle_extraction blank_pdf_env)) \<and>
          fs_read blank_pdf_env ONTOLOGY_FILE = Inr ''<rdf/>'' \<and>
          fs_read blank_pdf_env PROMPT_FILE = Inr ''Extract.'' \<and>
          model_new blank_pdf_env = None"
    by (simp add: validator_rejection_def model_defs env_defs)
  from pdf_text_concatenation [OF r, of ?u "''<rdf/>''" "''Extract.''"] h
  have a: "fst (extract_text_from_pdf blank_pdf_env ?b) = Some (concat [[], []]) \<and>
           llm_prompts (snd (handle_extraction blank_pdf_env)) =
              [composed_prompt ''Extract.'' ''<rdf/>'' (concat [[], []])]"
    by blast
  from pdf_text_concatenation [OF r2]
  have b: "fst (extract_text_from_pdf sample_env ?b) = Some (concat [''one '', ''two''])"
    by blast
  from a b r r2 show ?thesis by simp
qed

text \<open>
  When the model handle cannot be constructed, no prompt is sent.
\<close>

lemma no_handle_no_call:
  "model_new w = Some e \<Longrightarrow> llm_prompts (snd (handle_extraction w)) = []"
  by (simp add: handle_prompts split: option.split sum.split)

subsection \<open>Bytes that are not a PDF\<close>






subsection \<open>The configuration loader\<close>

text \<open>
  Claim C7. \<open>read_file\<close> fails (result \<open>None\<close>) with the diagnostic "file not found"
  when the path does not exist and with the different diagnostic "error reading file" on
  any other exception; when either read fails in a request that passed the validator, the
  response is 500.
\<close>

theorem config_loader_failures:
  "(fs_read w p = Inl FileNotFoundError \<longrightarrow>
      read_file w p = (None, [ReadFile p, Log (FileNotFoundAt p)])) \<and>
   (fs_read w p = Inl e \<and> e \<noteq> FileNotFoundError \<longrightarrow>
      read_file w p = (None, [ReadFile p, Log (ErrorReadingFile p e)])) \<and>
   FileNotFoundAt p \<noteq> ErrorReadingFile p e \<and>
   (\<not> validator_rejection (fst (handle_extraction w)) \<and>
    (fst (read_file w ONTOLOGY_FILE) = None \<or> fst (read_file w PROMPT_FILE) = None) \<longrightarrow>
      fst (handle_extraction w) =
        Response (ErrorBody ''Server configuration error reading ontology or prompt.'') 500)"
proof (intro conjI impI)
  assume "fs_read w p = Inl FileNotFoundError"
  then show "read_file w p = (None, [ReadFile p, Log (FileNotFoundAt p)])"
    by (simp add: read_file_def)
next
  assume "fs_read w p = Inl e \<and> e \<noteq> FileNotFoundError"
  then show "read_file w p = (None, [ReadFile p, Log (ErrorReadingFile p e)])"
    by (simp add: read_file_def)
next
  show "FileNotFoundAt p \<noteq> ErrorReadingFile p e" by simp
next
  assume a: "\<not> validator_rejection (fst (handle_extraction w)) \<and>
    (fst (read_file w ONTOLOGY_FILE) = None \<or> fst (read_file w PROMPT_FILE) = None)"
  then obtain upl where up: "request_file w = Some upl"
    and valid: "filename upl \<noteq> []" "endswith (lower (filename upl)) ''.pdf''"
    by (auto simp: rejection_iff split: option.splits)
  from a have "(\<exists>e. fs_read w ONTOLOGY_FILE = Inl e) \<or> (\<exists>e. fs_read w PROMPT_FILE = Inl e)"
    by (auto simp: read_file_fst split: sum.splits)
  then show "fst (handle_extraction w) =
        Response (ErrorBody ''Server configuration error reading ontology or prompt.'') 500"
    by (auto simp: handle_fst up valid split: sum.splits)
qed

theorem config_loader_failures_witness:
  "fs_read missing_ontology_env ONTOLOGY_FILE = Inl FileNotFoundError \<and>
   read_file missing_ontology_env ONTOLOGY_FILE =
     (None, [ReadFile ONTOLOGY_FILE, Log (FileNotFoundAt ONTOLOGY_FILE)]) \<and>
   \<not> validator_rejection (fst (handle_extraction missing_ontology_env)) \<and>
   fst (handle_extraction missing_ontology_env) =
     Response (ErrorBody ''Server configuration error reading ontology or prompt.'') 500 \<and>
   fs_read unreadable_prompt_env PROMPT_FILE = Inl (OtherError ''PermissionError'') \<and>
   read_file unreadable_prompt_env PROMPT_FILE =
     (None, [ReadFile PROMPT_FILE,
             Log (ErrorReadingFile PROMPT_FILE (OtherError ''PermissionError''))]) \<and>
   \<not> validator_rejection (fst (handle_extraction unreadable_prompt_env)) \<and>
   fst (handle_extraction unreadable_prompt_env) =
     Response (ErrorBody ''Server configuration error reading ontology or prompt.'') 500"
proof -
  have a: "fs_read missing_ontology_env ONTOLOGY_FILE = Inl FileNotFoundError"
    by (simp add: model_defs env_defs)
  have b: "fs_read unreadable_prompt_env PROMPT_FILE = Inl (OtherError ''PermissionError'')"
    by (simp add: model_defs env_defs)
  have na: "\<not> validator_rejection (fst (handle_extraction missing_ontology_env))"
    by (simp add: validator_rejection_def model_defs env_defs)
  have nb: "\<not> validator_rejection (fst (handle_extraction unreadable_prompt_env))"
    by (simp add: validator_rejection_def model_defs env_defs)
  note A = config_loader_failures [of missing_ontology_env ONTOLOGY_FILE FileNotFoundError]
  note B = config_loader_failures
             [of unreadable_prompt_env PROMPT_FILE "OtherError ''PermissionError''"]
  from A a have a1: "read_file missing_ontology_env ONTOLOGY_FILE =
     (None, [ReadFile ONTOLOGY_FILE, Log (FileNotFoundAt ONTOLOGY_FILE)])" by blast
  from B b have b1: "read_file unreadable_prompt_env PROMPT_FILE =
     (None, [ReadFile PROMPT_FILE,
             Log (ErrorReadingFile PROMPT_FILE (OtherError ''PermissionError''))])" by blast
  from a1 have a2: "fst (read_file missing_ontology_env ONTOLOGY_FILE) = None" by simp
  from b1 have b2: "fst (read_file unreadable_prompt_env PROMPT_FILE) = None" by simp
  from A na a2 have a3: "fst (handle_extraction missing_ontology_env) =
     Response (ErrorBody ''Server configuration error reading ontology or prompt.'') 500"
    by blast
  from B nb b2 have b3: "fst (handle_extraction unreadable_prompt_env) =
     Response (ErrorBody ''Server configuration error reading ontology or prompt.'') 500"
    by blast
  from a b na nb a1 b1 a3 b3 show ?thesis by blast
qed

subsection \<open>The output writer\<close>

text \<open>
  Claim C8. When \<open>os.makedirs\<close> raises, \<open>save_output\<close> logs nothing and an exception
  (\<open>UnboundLocalError\<close>, from the handler that formats the unassigned \<open>filepath\<close>)
  leaves it.
\<close>

theorem save_output_makedirs_raises:
  "makedirs makedirs_fail_env OUTPUT_DIR = Some (OtherError ''PermissionError'') \<and>
   save_output makedirs_fail_env ''report_extraction.json'' (PDict []) OUTPUT_DIR =
     (Some UnboundLocalError, [Makedirs OUTPUT_DIR])"
  by (simp add: model_defs env_defs)

text \<open>
  When the directory can be created, no exception leaves \<open>save_output\<close>, and its last
  act is a log line.
\<close>

lemma save_output_returns:
  "makedirs w d = None \<Longrightarrow> fst (save_output w f v d) = None \<and>
     (\<exists>m. last (snd (save_output w f v d)) = Log m)"
  by (simp add: save_output_def Let_def split: option.splits)

subsection \<open>The persisted value\<close>




text \<open>
  A file name with a directory part is handed to \<open>os.path.join\<close> as the client sent it:
  here the result is written outside the output directory.
\<close>

lemma absolute_name_escapes:
  "fst (handle_extraction absolute_name_env) = Response (JsonBody (PDict [])) 200 \<and>
   output_writes (snd (handle_extraction absolute_name_env)) =
     [Makedirs ''output'', OpenWrite ''/tmp/x_extraction.json'',
      JsonDump ''/tmp/x_extraction.json'' (PDict [])]"
  by (simp add: output_writes_def model_defs env_defs)

subsection \<open>The responses of the handler\<close>

text \<open>
  Claim C10. When \<open>os.makedirs\<close> raises, \<open>handle_extraction\<close> returns no response:
  the exception that leaves \<open>save_output\<close> leaves the handler.
\<close>

theorem handler_raises:
  "handle_extraction makedirs_fail_env =
     (Raised UnboundLocalError,
      [ReadFile ONTOLOGY_FILE, ReadFile PROMPT_FILE, PdfOpen [0x25, 0x50, 0x44, 0x46],
       ModelNew MODEL_NAME, Generate (full_prompt ''Extract.'' ''<rdf/>'' ''one two''),
       Makedirs OUTPUT_DIR])"
  by (simp add: model_defs env_defs)

text \<open>
  Otherwise the handler returns a response with status 200, 400 or 500, and an error
  payload unless the status is 200.
\<close>

lemma response_shape:
  assumes "makedirs w OUTPUT_DIR = None"
  shows "\<exists>b s. fst (handle_extraction w) = Response b s \<and> (s = 200 \<or> s = 400 \<or> s = 500) \<and>
           (s \<noteq> 200 \<longrightarrow> (\<exists>m. b = ErrorBody m))"
  using assms by (simp add: handle_fst split: option.splits sum.splits)

end
